theory Spec2Isabelle
  imports Complex_Main
begin

unbundle bit_operations_syntax

section \<open>Python values and exceptions\<close>

text \<open>
  The integration is Python. Exceptions are values of \<open>py_error\<close>; a function that can
  raise returns \<open>py_error + 'a\<close>, with \<open>Inl\<close> for the raised exception. \<open>HTTPError\<close>
  carries \<open>err.response.status_code\<close>.
\<close>

datatype py_error =
    KeyError string
  | IndexError
  | TypeError
  | NameError string
  | HTTPError nat
  | OtherError string

definition bind_e :: "py_error + 'a \<Rightarrow> ('a \<Rightarrow> py_error + 'b) \<Rightarrow> py_error + 'b" where
  "bind_e r f = (case r of Inl e \<Rightarrow> Inl e | Inr x \<Rightarrow> f x)"

text \<open>
  The status trees are parsed JSON: nested dictionaries with string keys. Only string
  leaves are read by the code modelled here.
\<close>

datatype json = JStr string | JObj "(string \<times> json) list"

text \<open>\<open>d[k]\<close>: a missing key raises KeyError, a string subscripted by a string TypeError.\<close>

fun subscript :: "json \<Rightarrow> string \<Rightarrow> py_error + json" where
  "subscript (JObj kvs) k = (case map_of kvs k of None \<Rightarrow> Inl (KeyError k) | Some v \<Rightarrow> Inr v)"
| "subscript (JStr s) k = Inl TypeError"

text \<open>
  \<open>table.get(key)\<close> on a dictionary literal with string keys: the value, or Python's
  \<open>None\<close> (here \<open>None\<close> of the option type) when the key is absent. A dictionary used
  as a key is unhashable and raises TypeError.
\<close>

fun dict_get :: "(string \<times> string) list \<Rightarrow> json \<Rightarrow> py_error + string option" where
  "dict_get d (JStr k) = Inr (map_of d k)"
| "dict_get d (JObj kvs) = Inl TypeError"

section \<open>water\_heater/evohome.py: the mode tables\<close>

text \<open>
  Modelled from the spec: the display values \<open>auto\<close>, \<open>eco\<close>, \<open>manual\<close> and \<open>off\<close>. The
  constants \<open>STATE_AUTO\<close>, \<open>STATE_ECO\<close>, \<open>STATE_MANUAL\<close> and \<open>STATE_OFF\<close> are imported
  from the host platform and are not defined in this repository.
\<close>

definition STATE_AUTO :: string where "STATE_AUTO = ''auto''"
definition STATE_ECO :: string where "STATE_ECO = ''eco''"
definition STATE_MANUAL :: string where "STATE_MANUAL = ''manual''"
definition STATE_OFF :: string where "STATE_OFF = ''off''"

definition EVO_RESET :: string where "EVO_RESET = ''AutoWithReset''"
definition EVO_AUTO :: string where "EVO_AUTO = ''Auto''"
definition EVO_AUTOECO :: string where "EVO_AUTOECO = ''AutoWithEco''"
definition EVO_AWAY :: string where "EVO_AWAY = ''Away''"
definition EVO_DAYOFF :: string where "EVO_DAYOFF = ''DayOff''"
definition EVO_CUSTOM :: string where "EVO_CUSTOM = ''Custom''"
definition EVO_HEATOFF :: string where "EVO_HEATOFF = ''HeatingOff''"

definition EVO_FOLLOW :: string where "EVO_FOLLOW = ''FollowSchedule''"
definition EVO_TEMPOVER :: string where "EVO_TEMPOVER = ''TemporaryOverride''"
definition EVO_PERMOVER :: string where "EVO_PERMOVER = ''PermanentOverride''"

text \<open>
  A dictionary literal is the list of its items in the order written; \<open>list(d)\<close> is the
  list of its keys in that order. No literal below repeats a key (lemma
  \<open>tables_distinct_keys\<close>), so looking a key up with \<open>map_of\<close> is the dictionary's
  lookup.
\<close>

definition TCS_STATE_TO_HA :: "(string \<times> string) list" where
  "TCS_STATE_TO_HA =
     [(EVO_RESET, STATE_AUTO),
      (EVO_AUTO, STATE_AUTO),
      (EVO_AUTOECO, STATE_ECO),
      (EVO_AWAY, STATE_AUTO),
      (EVO_DAYOFF, STATE_AUTO),
      (EVO_CUSTOM, STATE_AUTO),
      (EVO_HEATOFF, STATE_OFF)]"

definition HA_STATE_TO_TCS :: "(string \<times> string) list" where
  "HA_STATE_TO_TCS =
     [(STATE_AUTO, EVO_AUTO),
      (STATE_ECO, EVO_AUTOECO),
      (STATE_OFF, EVO_HEATOFF)]"

definition TCS_OP_LIST :: "string list" where
  "TCS_OP_LIST = map fst HA_STATE_TO_TCS"

definition ZONE_STATE_TO_HA :: "(string \<times> string) list" where
  "ZONE_STATE_TO_HA =
     [(EVO_FOLLOW, STATE_AUTO),
      (EVO_TEMPOVER, STATE_MANUAL),
      (EVO_PERMOVER, STATE_MANUAL)]"

definition HA_STATE_TO_ZONE :: "(string \<times> string) list" where
  "HA_STATE_TO_ZONE =
     [(STATE_AUTO, EVO_FOLLOW),
      (STATE_MANUAL, EVO_PERMOVER)]"

definition ZONE_OP_LIST :: "string list" where
  "ZONE_OP_LIST = map fst HA_STATE_TO_ZONE"

section \<open>water\_heater/evohome.py: the hot-water device\<close>

text \<open>
  Bit masks for dispatcher packets (evohome.py), Python integers.
\<close>

definition EVO_PARENT :: int where "EVO_PARENT = 1"
definition EVO_CHILD :: int where "EVO_CHILD = 2"

text \<open>
  The fields of \<open>EvoDevice\<close> that the modelled methods read or write. \<open>self._type\<close> is
  set by the subclass. \<open>self._params\<close> and \<open>self._timers\<close> are references to the
  dictionaries held in the shared \<open>evo_data\<close>, so the model reads and writes them there.
\<close>

record evo_device =
  dev_name :: string
  dev_type :: int
  dev_status :: json
  dev_available :: bool
  dev_operation_list :: "string list"

section \<open>evohome.py: configuration, time, shared state\<close>

text \<open>
  A \<open>timedelta\<close> is a whole number of microseconds, a \<open>datetime\<close> a whole number of
  microseconds since some epoch. \<open>total_seconds()\<close> returns a float: it is modelled by
  the exact rational, which is what the float arithmetic of \<open>setup\<close> computes whenever
  its operands are exactly representable (every whole number of seconds a
  \<open>timedelta\<close> can hold, and fractions such as one half).
\<close>

type_synonym timedelta = int
type_synonym datetime = int

definition timedelta_seconds :: "int \<Rightarrow> timedelta" where
  "timedelta_seconds s = s * 1000000"

definition timedelta_minutes :: "int \<Rightarrow> timedelta" where
  "timedelta_minutes m = m * 60000000"

definition timedelta_milliseconds :: "int \<Rightarrow> timedelta" where
  "timedelta_milliseconds ms = ms * 1000"

definition total_seconds :: "timedelta \<Rightarrow> rat" where
  "total_seconds td = of_int td / 1000000"

definition SCAN_INTERVAL_DEFAULT :: timedelta where
  "SCAN_INTERVAL_DEFAULT = timedelta_seconds 300"

definition SCAN_INTERVAL_MINIMUM :: timedelta where
  "SCAN_INTERVAL_MINIMUM = timedelta_seconds 180"

text \<open>
  Modelled from the spec: the HTTP status codes that the spec calls bad-credentials,
  service-unavailable and rate-limited. \<open>HTTP_BAD_REQUEST\<close>,
  \<open>HTTP_SERVICE_UNAVAILABLE\<close> and \<open>HTTP_TOO_MANY_REQUESTS\<close> are imported from the host
  platform and are not defined in this repository; they are the standard numbers.
\<close>

definition HTTP_BAD_REQUEST :: nat where "HTTP_BAD_REQUEST = 400"
definition HTTP_SERVICE_UNAVAILABLE :: nat where "HTTP_SERVICE_UNAVAILABLE = 503"
definition HTTP_TOO_MANY_REQUESTS :: nat where "HTTP_TOO_MANY_REQUESTS = 429"

text \<open>
  The validated configuration \<open>hass_config[DOMAIN]\<close>: \<open>CONFIG_SCHEMA\<close> makes every key
  present, \<open>location_idx\<close> a non-negative integer and \<open>scan_interval\<close> a \<open>timedelta\<close>
  of at least \<open>SCAN_INTERVAL_MINIMUM\<close>.
\<close>

record params =
  username :: string
  password :: string
  location_idx :: nat
  scan_interval :: timedelta
  dhw_temp :: rat

definition schema_accepts :: "params \<Rightarrow> bool" where
  "schema_accepts p \<longleftrightarrow>
     SCAN_INTERVAL_MINIMUM \<le> scan_interval p \<and> 35 \<le> dhw_temp p \<and> dhw_temp p \<le> 85"

text \<open>
  The vendor's installation topology, \<open>client.installation_info\<close>: a list of locations,
  each with a \<open>locationInfo\<close> dictionary and a list of gateways, each gateway with its
  \<open>gatewayInfo\<close> and a list of temperature control systems, which may hold a \<open>dhw\<close>
  entry. The lists may have any length; \<open>xs[0]\<close> on an empty one raises IndexError.
\<close>

record tcs =
  dhw :: "json option"

record gateway =
  gatewayInfo :: json
  temperatureControlSystems :: "tcs list"

record location =
  locationInfo :: "string \<rightharpoonup> json"
  gateways :: "gateway list"

record client =
  installation_info :: "location list"

text \<open>
  \<open>hass.data[DATA_EVOHOME]\<close>. A key that \<open>setup\<close> has not stored yet is \<open>None\<close>.
  \<open>evo_data['config']\<close> is the very object \<open>client.installation_info[loc_idx]\<close>, so it is
  kept as that index.
\<close>

record evo_data =
  timers :: "string \<rightharpoonup> datetime"
  params :: params
  client :: "client option"
  status :: "json option"
  config :: "nat option"

definition evo_config :: "evo_data \<Rightarrow> location option" where
  "evo_config ed =
     (case (client ed, config ed) of
        (Some c, Some i) \<Rightarrow>
          (if i < length (installation_info c) then Some (installation_info c ! i) else None)
      | _ \<Rightarrow> None)"

datatype log_level = ERROR | WARNING | DEBUG

datatype log_arg = ArgStr string | ArgInt int | ArgTimedelta timedelta | ArgLoc location

datatype log_call = Log log_level string "log_arg list"

record packet =
  pkt_sender :: string
  pkt_signal :: string
  pkt_to :: int

text \<open>
  The host platform as far as \<open>setup\<close> touches it: the shared data, the calls made to
  the logger, the platforms loaded, and the packets that the listeners registered for
  the start event will send.
\<close>

record hass =
  hass_data :: evo_data
  hass_log :: "log_call list"
  hass_platforms :: "string list"
  hass_listeners :: "packet list"

section \<open>water\_heater/evohome.py: EvoDHW\<close>

text \<open>
  \<open>EvoDHW.__init__\<close>: the device is a child; its configuration is read from
  \<open>evo_data['config'][GWS][0][TCS][0]['dhw']\<close>.
\<close>

definition EvoDHW_init :: "evo_data \<Rightarrow> py_error + evo_device" where
  "EvoDHW_init ed =
     (case evo_config ed of
        None \<Rightarrow> Inl (KeyError ''config'')
      | Some loc \<Rightarrow>
          (case gateways loc of
             [] \<Rightarrow> Inl IndexError
           | g # gs \<Rightarrow>
               (case temperatureControlSystems g of
                  [] \<Rightarrow> Inl IndexError
                | t # ts \<Rightarrow>
                    (case dhw t of
                       None \<Rightarrow> Inl (KeyError ''dhw'')
                     | Some cfg \<Rightarrow>
                         Inr \<lparr>dev_name = ''~DHW controller'',
                              dev_type = EVO_CHILD,
                              dev_status = JObj [],
                              dev_available = False,
                              dev_operation_list = ZONE_OP_LIST\<rparr>))))"

text \<open>\<open>EvoDHW.update\<close>: the device takes its slice of the shared status tree.\<close>

definition EvoDHW_update :: "evo_data \<Rightarrow> evo_device \<Rightarrow> py_error + evo_device" where
  "EvoDHW_update ed self =
     (case status ed of
        None \<Rightarrow> Inl (KeyError ''status'')
      | Some st \<Rightarrow>
          bind_e (subscript st ''dhw'')
            (\<lambda>s. Inr (self\<lparr>dev_status := s, dev_available := True\<rparr>)))"

text \<open>
  \<open>EvoDHW.current_operation\<close>. The two reads are
  \<open>evo_data['status']['systemModeStatus']['mode']\<close> and
  \<open>self._status['stateStatus']['mode']\<close>, in that order; the result is a display value
  or Python's \<open>None\<close>. The call to the logger does not change the result and is
  left out.
\<close>

definition system_mode_of :: "evo_data \<Rightarrow> py_error + json" where
  "system_mode_of ed =
     (case status ed of
        None \<Rightarrow> Inl (KeyError ''status'')
      | Some st \<Rightarrow>
          bind_e (subscript st ''systemModeStatus'') (\<lambda>sms. subscript sms ''mode''))"

definition setpoint_mode_of :: "evo_device \<Rightarrow> py_error + json" where
  "setpoint_mode_of self =
     bind_e (subscript (dev_status self) ''stateStatus'') (\<lambda>ss. subscript ss ''mode'')"

definition current_operation :: "evo_data \<Rightarrow> evo_device \<Rightarrow> py_error + string option" where
  "current_operation ed self =
     bind_e (system_mode_of ed) (\<lambda>system_mode.
     bind_e (setpoint_mode_of self) (\<lambda>setpoint_mode.
       if setpoint_mode = JStr EVO_FOLLOW then
         (if system_mode = JStr EVO_RESET then dict_get TCS_STATE_TO_HA (JStr EVO_AUTO)
          else dict_get TCS_STATE_TO_HA system_mode)
       else dict_get ZONE_STATE_TO_HA setpoint_mode))"

section \<open>evohome.py: EvoDevice\<close>

text \<open>
  \<open>should_poll\<close> and \<open>_connect\<close>. \<open>_connect\<close> either calls
  \<open>async_schedule_update_ha_state(force_refresh=True)\<close> or does nothing; the model
  returns the calls made. In Python \<open>a & b and c\<close> holds when \<open>a & b\<close> is not zero and
  \<open>c\<close> is true.
\<close>

datatype ha_call = Schedule_update_ha_state bool

definition should_poll :: "evo_device \<Rightarrow> bool" where
  "should_poll self \<longleftrightarrow> dev_type self = EVO_PARENT"

definition EvoDevice_connect :: "evo_device \<Rightarrow> packet \<Rightarrow> ha_call list" where
  "EvoDevice_connect self pkt =
     (if (pkt_to pkt AND dev_type self) \<noteq> 0 \<and> pkt_signal pkt = ''refresh''
      then [Schedule_update_ha_state True]
      else [])"

text \<open>
  The names that evohome.py binds at module level, by its imports, assignments and
  definitions (\<open>EvohomeClient\<close> is imported inside \<open>setup\<close> and is local to it). A
  function of the module that reads a global name finds it here or among Python's
  builtins, and raises NameError otherwise. The module imports \<open>timedelta\<close> from
  \<open>datetime\<close>, and nothing else from it; \<open>datetime\<close> is not a builtin.
\<close>

definition evohome_globals :: "string list" where
  "evohome_globals =
     [''timedelta'', ''logging'', ''HTTPError'', ''vol'',
      ''CONF_SCAN_INTERVAL'', ''CONF_USERNAME'', ''CONF_PASSWORD'',
      ''EVENT_HOMEASSISTANT_START'',
      ''HTTP_BAD_REQUEST'', ''HTTP_SERVICE_UNAVAILABLE'', ''HTTP_TOO_MANY_REQUESTS'',
      ''PRECISION_HALVES'', ''TEMP_CELSIUS'',
      ''callback'', ''cv'', ''load_platform'',
      ''async_dispatcher_send'', ''async_dispatcher_connect'', ''Entity'',
      ''REQUIREMENTS'', ''_LOGGER'', ''DOMAIN'', ''DATA_EVOHOME'', ''DISPATCHER_EVOHOME'',
      ''CONF_LOCATION_IDX'', ''CONF_DHW_TEMP'',
      ''DHW_TEMP_DEFAULT'', ''DHW_TEMP_MAX'', ''DHW_TEMP_MIN'',
      ''SCAN_INTERVAL_DEFAULT'', ''SCAN_INTERVAL_MINIMUM'', ''CONFIG_SCHEMA'',
      ''GWS'', ''TCS'', ''EVO_PARENT'', ''EVO_CHILD'',
      ''setup'', ''EvoDevice'']"

definition load_global :: "string list \<Rightarrow> string \<Rightarrow> py_error + unit" where
  "load_global globals n = (if n \<in> set globals then Inr () else Inl (NameError n))"

definition msg_suspending :: string where
  "msg_suspending =
     ''API rate limit appears to have been exceeded. Suspending polling for %s seconds.''"

text \<open>
  \<open>_handle_requests_exceptions\<close>, in a module whose global names are \<open>globals\<close>. The
  error is an \<open>HTTPError\<close>, given by the status code of its response; \<open>now\<close> is what
  \<open>datetime.now()\<close> returns once the name \<open>datetime\<close> has been found. The warning is
  logged before the name is looked up.
\<close>

definition handle_requests_exceptions_in ::
  "string list \<Rightarrow> datetime \<Rightarrow> hass \<Rightarrow> nat \<Rightarrow> (py_error + unit) \<times> hass" where
  "handle_requests_exceptions_in globals now hass status_code =
     (if status_code = HTTP_TOO_MANY_REQUESTS then
        (let interval = scan_interval (params (hass_data hass));
             temp_interval = max interval SCAN_INTERVAL_DEFAULT * 3;
             hass1 = hass\<lparr>hass_log := hass_log hass @
                       [Log WARNING msg_suspending [ArgTimedelta temp_interval]]\<rparr>
         in case load_global globals ''datetime'' of
              Inl e \<Rightarrow> (Inl e, hass1)
            | Inr u \<Rightarrow>
                (Inr (),
                 hass1\<lparr>hass_data := (hass_data hass1)
                   \<lparr>timers := (timers (hass_data hass1))
                      (''statusUpdated'' \<mapsto> now + temp_interval)\<rparr>\<rparr>))
      else (Inl (HTTPError status_code), hass))"

definition handle_requests_exceptions ::
  "datetime \<Rightarrow> hass \<Rightarrow> nat \<Rightarrow> (py_error + unit) \<times> hass" where
  "handle_requests_exceptions = handle_requests_exceptions_in evohome_globals"

section \<open>evohome.py: setup\<close>

text \<open>
  The scan interval of \<open>setup\<close>:
  \<open>timedelta(minutes=(scan_interval.total_seconds() + 59) // 60)\<close>. The floor division
  of floats returns a whole number.
\<close>

definition setup_scan_interval :: "timedelta \<Rightarrow> timedelta" where
  "setup_scan_interval interval =
     timedelta_minutes \<lfloor>(total_seconds interval + 59) / 60\<rfloor>"

definition REDACTED :: string where "REDACTED = ''REDACTED''"

definition CONF_LOCATION_IDX :: string where "CONF_LOCATION_IDX = ''location_idx''"

definition msg_bad_request :: string where
  "msg_bad_request =
     ''setup(): Failed to connect with the vendor's web servers. Check your username (%s), and password are correct.Unable to continue. Resolve any errors and restart HA.''"

definition msg_service_unavailable :: string where
  "msg_service_unavailable =
     ''setup(): Failed to connect with the vendor's web servers. The server is not contactable. Unable to continue. Resolve any errors and restart HA.''"

definition msg_too_many_requests :: string where
  "msg_too_many_requests =
     ''setup(): Failed to connect with the vendor's web servers. You have exceeded the api rate limit. Unable to continue. Wait a while (say 10 minutes) and restart HA.''"

definition msg_location_idx :: string where
  "msg_location_idx = ''setup(): Parameter '%s'=%s, is outside its range (0-%s)''"

definition msg_config :: string where
  "msg_config = ''setup(): evo_data['config']=%s''"

text \<open>The \<open>finally\<close> clause of \<open>setup\<close>.\<close>

definition redact_params :: "evo_data \<Rightarrow> evo_data" where
  "redact_params ed =
     ed\<lparr>params := (params ed)\<lparr>username := REDACTED, password := REDACTED\<rparr>\<rparr>"

text \<open>
  The body of the redaction loop for one location. The four assignments into
  \<open>locationInfo\<close> are done when \<open>loc[GWS][0]\<close> is evaluated, so the location comes
  back changed also when that raises.
\<close>

definition redact_location :: "location \<Rightarrow> py_error option \<times> location" where
  "redact_location loc =
     (let loc1 = loc\<lparr>locationInfo := (locationInfo loc)
                  (''locationId'' \<mapsto> JStr REDACTED,
                   ''locationOwner'' \<mapsto> JStr REDACTED,
                   ''streetAddress'' \<mapsto> JStr REDACTED,
                   ''city'' \<mapsto> JStr REDACTED)\<rparr>
      in case gateways loc1 of
           [] \<Rightarrow> (Some IndexError, loc1)
         | g # gs \<Rightarrow> (None, loc1\<lparr>gateways := g\<lparr>gatewayInfo := JStr REDACTED\<rparr> # gs\<rparr>))"

fun redact_installation :: "location list \<Rightarrow> py_error option \<times> location list" where
  "redact_installation [] = (None, [])"
| "redact_installation (loc # locs) =
     (case redact_location loc of
        (Some e, loc1) \<Rightarrow> (Some e, loc1 # locs)
      | (None, loc1) \<Rightarrow>
          (case redact_installation locs of (r, locs1) \<Rightarrow> (r, loc1 # locs1)))"

definition redact_postcode :: "location \<Rightarrow> location" where
  "redact_postcode loc =
     loc\<lparr>locationInfo := (locationInfo loc)(''postcode'' \<mapsto> JStr REDACTED)\<rparr>"

definition first_update :: packet where
  "first_update = \<lparr>pkt_sender = ''setup()'', pkt_signal = ''refresh'', pkt_to = EVO_PARENT\<rparr>"

text \<open>
  \<open>setup\<close> after the client has been created (from \<open>evo_data['client'] = client\<close> to
  the end). The shallow copy \<open>tmp_loc\<close> shares its \<open>locationInfo\<close> with the retained
  location, so with debug logging enabled the postcode of that location is overwritten.
\<close>

definition setup_installation :: "bool \<Rightarrow> hass \<Rightarrow> client \<Rightarrow> (py_error + bool) \<times> hass" where
  "setup_installation debug_enabled hass c =
     (let ed = (hass_data hass)\<lparr>client := Some c, status := Some (JObj [])\<rparr> in
      case redact_installation (installation_info c) of
        (Some e, locs) \<Rightarrow>
          (Inl e, hass\<lparr>hass_data := ed\<lparr>client := Some (c\<lparr>installation_info := locs\<rparr>)\<rparr>\<rparr>)
      | (None, locs) \<Rightarrow>
          (let loc_idx = location_idx (params ed) in
           if \<not> loc_idx < length locs then
             (Inr False,
              hass\<lparr>hass_data := ed\<lparr>client := Some (c\<lparr>installation_info := locs\<rparr>)\<rparr>,
                   hass_log := hass_log hass @
                     [Log WARNING msg_location_idx
                        [ArgStr CONF_LOCATION_IDX, ArgInt (int loc_idx),
                         ArgInt (int (length locs) - 1)]]\<rparr>)
           else
             (let locs1 = (if debug_enabled
                           then locs[loc_idx := redact_postcode (locs ! loc_idx)]
                           else locs);
                  hass1 = hass
                    \<lparr>hass_data := ed\<lparr>client := Some (c\<lparr>installation_info := locs1\<rparr>),
                                     config := Some loc_idx\<rparr>,
                     hass_log := hass_log hass @
                       (if debug_enabled
                        then [Log DEBUG msg_config [ArgLoc (locs1 ! loc_idx)]]
                        else []),
                     hass_platforms := hass_platforms hass @ [''climate'']\<rparr>
              in case gateways (locs1 ! loc_idx) of
                   [] \<Rightarrow> (Inl IndexError, hass1)
                 | g # gs \<Rightarrow>
                     (case temperatureControlSystems g of
                        [] \<Rightarrow> (Inl IndexError, hass1)
                      | t # ts \<Rightarrow>
                          (Inr True,
                           hass1\<lparr>hass_platforms := hass_platforms hass1 @
                                    (if dhw t \<noteq> None then [''water_heater''] else []),
                                 hass_listeners := hass_listeners hass1 @ [first_update]\<rparr>)))))"

text \<open>
  \<open>setup\<close>. \<open>EvohomeClient\<close> is the vendor's client library: given the username and the
  password it returns a client or raises. \<open>debug_enabled\<close> is
  \<open>_LOGGER.isEnabledFor(logging.DEBUG)\<close>. The result is the value returned or the
  exception raised, with the state of the host platform as \<open>setup\<close> leaves it.
\<close>

definition evohome_setup ::
  "(string \<Rightarrow> string \<Rightarrow> py_error + client) \<Rightarrow> bool \<Rightarrow> hass \<Rightarrow> params \<Rightarrow> (py_error + bool) \<times> hass" where
  "evohome_setup EvohomeClient debug_enabled hass hass_config =
     (let ed = \<lparr>timers = Map.empty, params = hass_config, client = None,
                status = None, config = None\<rparr>;
          interval = setup_scan_interval (scan_interval (params ed));
          failed = (\<lambda>msg args.
            (Inr False,
             hass\<lparr>hass_data := redact_params ed,
                  hass_log := hass_log hass @ [Log ERROR msg args]\<rparr>))
      in case EvohomeClient (username (params ed)) (password (params ed)) of
           Inl err \<Rightarrow>
             (case err of
                HTTPError code \<Rightarrow>
                  if code = HTTP_BAD_REQUEST then
                    failed msg_bad_request [ArgStr (username (params ed))]
                  else if code = HTTP_SERVICE_UNAVAILABLE then
                    failed msg_service_unavailable []
                  else if code = HTTP_TOO_MANY_REQUESTS then
                    failed msg_too_many_requests []
                  else (Inl err, hass\<lparr>hass_data := redact_params ed\<rparr>)
              | _ \<Rightarrow> (Inl err, hass\<lparr>hass_data := redact_params ed\<rparr>))
         | Inr c \<Rightarrow> setup_installation debug_enabled (hass\<lparr>hass_data := redact_params ed\<rparr>) c)"

section \<open>What the retained state must satisfy, and example inputs\<close>

text \<open>
  What "redacted" can mean for a location. In both readings the four fields of
  \<open>locationInfo\<close> that \<open>setup\<close> overwrites hold the literal \<open>REDACTED\<close>. In the first
  reading so does the \<open>gatewayInfo\<close> of every gateway of the location; in the second,
  that of its first gateway, the only one \<open>setup\<close> assigns to.
\<close>

definition redacted_location_info :: "location \<Rightarrow> bool" where
  "redacted_location_info loc \<longleftrightarrow>
     locationInfo loc ''locationId'' = Some (JStr REDACTED)
     \<and> locationInfo loc ''locationOwner'' = Some (JStr REDACTED)
     \<and> locationInfo loc ''streetAddress'' = Some (JStr REDACTED)
     \<and> locationInfo loc ''city'' = Some (JStr REDACTED)"

definition redacted_location :: "location \<Rightarrow> bool" where
  "redacted_location loc \<longleftrightarrow>
     redacted_location_info loc
     \<and> gateways loc \<noteq> []
     \<and> map gatewayInfo (gateways loc) = replicate (length (gateways loc)) (JStr REDACTED)"

definition redacted_up_to_first_gateway :: "location \<Rightarrow> bool" where
  "redacted_up_to_first_gateway loc \<longleftrightarrow>
     redacted_location_info loc
     \<and> (case gateways loc of [] \<Rightarrow> False | g # gs \<Rightarrow> gatewayInfo g = JStr REDACTED)"

text \<open>Concrete inputs, on which the theorems below are exercised.\<close>

definition example_params :: params where
  "example_params =
     \<lparr>username = ''user@example.com'', password = ''secret'', location_idx = 0,
      scan_interval = timedelta_seconds 300, dhw_temp = 54\<rparr>"

definition example_evo_data :: "string \<Rightarrow> evo_data" where
  "example_evo_data mode =
     \<lparr>timers = Map.empty, params = example_params, client = None,
      status = Some (JObj [(''systemModeStatus'', JObj [(''mode'', JStr mode)])]),
      config = None\<rparr>"

definition example_dhw :: "string \<Rightarrow> evo_device" where
  "example_dhw mode =
     \<lparr>dev_name = ''~DHW controller'', dev_type = EVO_CHILD,
      dev_status = JObj [(''stateStatus'', JObj [(''mode'', JStr mode), (''state'', JStr ''On'')])],
      dev_available = True, dev_operation_list = ZONE_OP_LIST\<rparr>"

definition example_hass :: hass where
  "example_hass =
     \<lparr>hass_data = \<lparr>timers = Map.empty, params = example_params, client = None,
                    status = None, config = None\<rparr>,
      hass_log = [], hass_platforms = [], hass_listeners = []\<rparr>"

definition example_gateway :: gateway where
  "example_gateway =
     \<lparr>gatewayInfo = JObj [(''gatewayId'', JStr ''2345678'')],
      temperatureControlSystems = [\<lparr>dhw = Some (JObj [(''dhwId'', JStr ''3456789'')])\<rparr>]\<rparr>"

definition example_second_gateway :: gateway where
  "example_second_gateway =
     \<lparr>gatewayInfo = JObj [(''gatewayId'', JStr ''7654321'')],
      temperatureControlSystems = []\<rparr>"

definition example_location :: "gateway list \<Rightarrow> location" where
  "example_location gws =
     \<lparr>locationInfo =
        [''locationId'' \<mapsto> JStr ''1234567'',
         ''locationOwner'' \<mapsto> JObj [(''username'', JStr ''user@example.com'')],
         ''streetAddress'' \<mapsto> JStr ''1 High Street'',
         ''city'' \<mapsto> JStr ''London'',
         ''postcode'' \<mapsto> JStr ''E1 1AA''],
      gateways = gws\<rparr>"

definition example_client :: "location list \<Rightarrow> string \<Rightarrow> string \<Rightarrow> py_error + client" where
  "example_client locs u p = Inr \<lparr>installation_info = locs\<rparr>"

definition example_failing_client :: "nat \<Rightarrow> string \<Rightarrow> string \<Rightarrow> py_error + client" where
  "example_failing_client code u p = Inl (HTTPError code)"

definition example_configured :: evo_data where
  "example_configured =
     \<lparr>timers = Map.empty, params = example_params,
      client = Some \<lparr>installation_info = [example_location [example_gateway]]\<rparr>,
      status = Some (JObj []), config = Some 0\<rparr>"

section \<open>Facts about the definitions\<close>

lemmas evo_names =
  STATE_AUTO_def STATE_ECO_def STATE_MANUAL_def STATE_OFF_def
  EVO_RESET_def EVO_AUTO_def EVO_AUTOECO_def EVO_AWAY_def EVO_DAYOFF_def
  EVO_CUSTOM_def EVO_HEATOFF_def EVO_FOLLOW_def EVO_TEMPOVER_def EVO_PERMOVER_def

lemmas evo_tables =
  TCS_STATE_TO_HA_def HA_STATE_TO_TCS_def ZONE_STATE_TO_HA_def HA_STATE_TO_ZONE_def
  TCS_OP_LIST_def ZONE_OP_LIST_def

lemma tables_distinct_keys:
  "distinct (map fst TCS_STATE_TO_HA)"
  "distinct (map fst HA_STATE_TO_TCS)"
  "distinct (map fst ZONE_STATE_TO_HA)"
  "distinct (map fst HA_STATE_TO_ZONE)"
  by (simp_all add: evo_tables evo_names)

lemmas examples =
  example_params_def example_evo_data_def example_dhw_def example_hass_def
  example_gateway_def example_second_gateway_def example_location_def example_client_def example_failing_client_def
  example_configured_def

lemmas setup_msgs =
  msg_bad_request_def msg_service_unavailable_def msg_too_many_requests_def

lemmas http_codes =
  HTTP_BAD_REQUEST_def HTTP_SERVICE_UNAVAILABLE_def HTTP_TOO_MANY_REQUESTS_def

lemma follow_reset:
  assumes "system_mode_of ed = Inr system_mode" and "setpoint_mode_of self = Inr (JStr EVO_FOLLOW)"
  shows "current_operation ed self =
           (if system_mode = JStr EVO_RESET then Inr (Some STATE_AUTO)
            else dict_get TCS_STATE_TO_HA system_mode)"
  using assms by (simp add: current_operation_def bind_e_def evo_tables evo_names)

lemma override_zone:
  assumes "system_mode_of ed = Inr system_mode" and "setpoint_mode_of self = Inr setpoint_mode"
    and "setpoint_mode \<noteq> JStr EVO_FOLLOW"
  shows "current_operation ed self = dict_get ZONE_STATE_TO_HA setpoint_mode"
  using assms by (simp add: current_operation_def bind_e_def)

lemma example_setpoint_mode: "setpoint_mode_of (example_dhw m) = Inr (JStr m)"
  by (simp add: setpoint_mode_of_def example_dhw_def bind_e_def)

lemma example_system_mode: "system_mode_of (example_evo_data m) = Inr (JStr m)"
  by (simp add: system_mode_of_def example_evo_data_def bind_e_def)

lemma and_parent_bit: "(x AND EVO_PARENT) \<noteq> 0 \<longleftrightarrow> bit x 0" for x :: int
  using bit_iff_and_push_bit_not_eq_0 [of x 0] by (simp add: EVO_PARENT_def)

lemma and_child_bit: "(x AND EVO_CHILD) \<noteq> 0 \<longleftrightarrow> bit x 1" for x :: int
  using bit_iff_and_push_bit_not_eq_0 [of x 1] by (simp add: EVO_CHILD_def)

lemma EvoDHW_init_type: "EvoDHW_init ed = Inr self \<Longrightarrow> dev_type self = EVO_CHILD"
  by (auto simp: EvoDHW_init_def split: option.splits list.splits)

lemma example_init: "EvoDHW_init example_configured = Inr ((example_dhw '''')
    \<lparr>dev_status := JObj [], dev_available := False\<rparr>)"
  by (simp add: EvoDHW_init_def evo_config_def examples)

lemma setup_scan_interval_whole_seconds:
  "setup_scan_interval (timedelta_seconds s) = timedelta_minutes ((s + 59) div 60)"
proof -
  have "total_seconds (timedelta_seconds s) = of_int s"
    by (simp add: total_seconds_def timedelta_seconds_def)
  then have "\<lfloor>(total_seconds (timedelta_seconds s) + 59) / 60\<rfloor> = (s + 59) div 60"
    using floor_divide_of_int_eq [of "s + 59" 60, where ?'a = rat] by simp
  then show ?thesis
    by (simp add: setup_scan_interval_def)
qed

lemma setup_scan_interval_200: "setup_scan_interval (timedelta_seconds 200) = timedelta_minutes 4"
  by (simp add: setup_scan_interval_whole_seconds)

lemma datetime_not_global: "load_global evohome_globals ''datetime'' = Inl (NameError ''datetime'')"
  by (simp add: load_global_def evohome_globals_def)

lemma rate_limit_handler_with_datetime:
  assumes "''datetime'' \<in> set globals"
  shows "fst (handle_requests_exceptions_in globals now hass HTTP_TOO_MANY_REQUESTS) = Inr ()"
    and "timers (hass_data (snd (handle_requests_exceptions_in globals now hass HTTP_TOO_MANY_REQUESTS)))
           ''statusUpdated''
         = Some (now + max (scan_interval (params (hass_data hass))) SCAN_INTERVAL_DEFAULT * 3)"
  using assms by (simp_all add: handle_requests_exceptions_in_def load_global_def Let_def)

lemma other_error_reraised:
  "code \<noteq> HTTP_TOO_MANY_REQUESTS \<Longrightarrow>
     handle_requests_exceptions_in globals now hass code = (Inl (HTTPError code), hass)"
  by (simp add: handle_requests_exceptions_in_def)

lemma redact_installation_length:
  "length (snd (redact_installation locs)) = length locs"
  by (induction locs) (auto split: prod.splits option.splits)

lemma redact_location_ok:
  "gateways loc \<noteq> [] \<Longrightarrow> fst (redact_location loc) = None"
  by (cases "gateways loc") (simp_all add: redact_location_def)

lemma redact_installation_ok:
  "\<forall>loc \<in> set locs. gateways loc \<noteq> [] \<Longrightarrow> fst (redact_installation locs) = None"
proof (induction locs)
  case Nil
  then show ?case by simp
next
  case (Cons loc locs)
  then have "fst (redact_location loc) = None" and "fst (redact_installation locs) = None"
    by (simp_all add: redact_location_ok)
  then show ?case
    by (auto split: prod.splits option.splits)
qed

lemma redact_location_redacted:
  "redact_location loc = (None, loc1) \<Longrightarrow> redacted_up_to_first_gateway loc1"
  by (cases "gateways loc") (auto simp: redact_location_def redacted_up_to_first_gateway_def redacted_location_info_def)

lemma redact_installation_redacted:
  "redact_installation locs = (None, locs1) \<Longrightarrow> \<forall>loc \<in> set locs1. redacted_up_to_first_gateway loc"
proof (induction locs arbitrary: locs1)
  case Nil
  then show ?case by simp
next
  case (Cons loc locs)
  then show ?case
    by (auto split: prod.splits option.splits dest: redact_location_redacted)
qed

lemma redact_postcode_redacted:
  "redacted_up_to_first_gateway loc \<Longrightarrow> redacted_up_to_first_gateway (redact_postcode loc)"
  by (simp add: redacted_up_to_first_gateway_def redacted_location_info_def redact_postcode_def)

lemma list_update_redacted:
  assumes "\<forall>loc \<in> set locs. redacted_up_to_first_gateway loc" and "i < length locs"
  shows "\<forall>loc \<in> set (locs[i := redact_postcode (locs ! i)]). redacted_up_to_first_gateway loc"
proof
  fix loc assume "loc \<in> set (locs[i := redact_postcode (locs ! i)])"
  then have "loc \<in> insert (redact_postcode (locs ! i)) (set locs)"
    using set_update_subset_insert by fastforce
  with assms show "redacted_up_to_first_gateway loc"
    by (auto intro: redact_postcode_redacted)
qed

lemma setup_installation_params:
  "params (hass_data (snd (setup_installation dbg h c))) = params (hass_data h)"
  by (simp add: setup_installation_def Let_def split: prod.splits option.splits list.splits)

lemma setup_installation_returns:
  assumes "setup_installation dbg h c = (Inr b, h1)"
  shows "\<exists>c1. client (hass_data h1) = Some c1
           \<and> (\<forall>loc \<in> set (installation_info c1). redacted_up_to_first_gateway loc)"
proof (cases "redact_installation (installation_info c)")
  case (Pair r locs)
  show ?thesis
  proof (cases r)
    case (Some e)
    with Pair assms show ?thesis
      by (simp add: setup_installation_def)
  next
    case None
    with Pair have red: "\<forall>loc \<in> set locs. redacted_up_to_first_gateway loc"
      by (simp add: redact_installation_redacted)
    show ?thesis
    proof (cases "location_idx (params (hass_data h)) < length locs")
      case False
      with Pair None assms red show ?thesis
        by (auto simp: setup_installation_def Let_def)
    next
      case True
      with red have "\<forall>loc \<in> set (locs[location_idx (params (hass_data h)) :=
          redact_postcode (locs ! location_idx (params (hass_data h)))]). redacted_up_to_first_gateway loc"
        by (rule list_update_redacted)
      with Pair None assms red True show ?thesis
        by (auto simp: setup_installation_def Let_def split: list.splits if_splits)
    qed
  qed
qed

lemma evo_config_retained:
  "evo_config ed = Some loc \<Longrightarrow> \<exists>c. client ed = Some c \<and> loc \<in> set (installation_info c)"
  by (auto simp: evo_config_def split: option.splits if_splits)

lemma setup_http_error:
  assumes "EvohomeClient (username cfg) (password cfg) = Inl (HTTPError code)"
  shows "evohome_setup EvohomeClient dbg hass cfg =
    (let h = hass\<lparr>hass_data := redact_params
               \<lparr>timers = Map.empty, params = cfg, client = None, status = None, config = None\<rparr>\<rparr>
     in if code = HTTP_BAD_REQUEST then
          (Inr False, h\<lparr>hass_log := hass_log hass @ [Log ERROR msg_bad_request [ArgStr (username cfg)]]\<rparr>)
        else if code = HTTP_SERVICE_UNAVAILABLE then
          (Inr False, h\<lparr>hass_log := hass_log hass @ [Log ERROR msg_service_unavailable []]\<rparr>)
        else if code = HTTP_TOO_MANY_REQUESTS then
          (Inr False, h\<lparr>hass_log := hass_log hass @ [Log ERROR msg_too_many_requests []]\<rparr>)
        else (Inl (HTTPError code), h))"
  using assms by (simp add: evohome_setup_def Let_def)

lemma setup_index_out_of_range:
  assumes "EvohomeClient (username cfg) (password cfg) = Inr c"
    and "\<forall>loc \<in> set (installation_info c). gateways loc \<noteq> []"
    and "length (installation_info c) \<le> location_idx cfg"
  shows "fst (evohome_setup EvohomeClient dbg hass cfg) = Inr False"
    and "hass_log (snd (evohome_setup EvohomeClient dbg hass cfg)) =
           hass_log hass @
             [Log WARNING msg_location_idx
                [ArgStr CONF_LOCATION_IDX, ArgInt (int (location_idx cfg)),
                 ArgInt (int (length (installation_info c)) - 1)]]"
proof -
  obtain r locs where red: "redact_installation (installation_info c) = (r, locs)"
    by (cases "redact_installation (installation_info c)")
  with assms(2) have r: "r = None"
    using redact_installation_ok [of "installation_info c"] by simp
  from red have len: "length locs = length (installation_info c)"
    using redact_installation_length [of "installation_info c"] by simp
  from assms(1,3) red r len
  show "fst (evohome_setup EvohomeClient dbg hass cfg) = Inr False"
    by (simp add: evohome_setup_def setup_installation_def Let_def redact_params_def)
  from assms(1,3) red r len
  show "hass_log (snd (evohome_setup EvohomeClient dbg hass cfg)) =
           hass_log hass @
             [Log WARNING msg_location_idx
                [ArgStr CONF_LOCATION_IDX, ArgInt (int (location_idx cfg)),
                 ArgInt (int (length (installation_info c)) - 1)]]"
    by (simp add: evohome_setup_def setup_installation_def Let_def redact_params_def)
qed

lemma redacted_single_gateway:
  "redacted_up_to_first_gateway loc \<Longrightarrow> length (gateways loc) = 1 \<Longrightarrow> redacted_location loc"
  by (cases "gateways loc")
    (auto simp: redacted_up_to_first_gateway_def redacted_location_def)

lemma example_run_ok:
  "fst (evohome_setup (example_client [example_location [example_gateway]]) False example_hass
     example_params) = Inr True"
  by (simp add: evohome_setup_def setup_installation_def Let_def redact_params_def
      redact_location_def examples)

lemma example_run_client:
  "\<exists>c. client (hass_data (snd (evohome_setup (example_client [example_location [example_gateway]])
     False example_hass example_params))) = Some c \<and> length (installation_info c) = 1"
  by (simp add: evohome_setup_def setup_installation_def Let_def redact_params_def
      redact_location_def examples)

lemma example_run_config:
  "evo_config (hass_data (snd (evohome_setup (example_client [example_location [example_gateway]])
     False example_hass example_params))) \<noteq> None"
  by (simp add: evohome_setup_def setup_installation_def Let_def redact_params_def
      redact_location_def evo_config_def examples)

lemma example_run_failed:
  "fst (evohome_setup (example_failing_client HTTP_BAD_REQUEST) False example_hass example_params)
     = Inr False"
  by (simp add: evohome_setup_def Let_def example_failing_client_def)

section \<open>The claims\<close>

text \<open>
  C1. When \<open>_handle_requests_exceptions\<close> receives an error whose status is too-many-requests,
  the spec has it record \<open>now + max(configured, default) * 3\<close> as the next allowed poll
  time. In evohome.py the name \<open>datetime\<close> is never bound, so for every device, clock and
  configuration the handler raises NameError after logging the warning, and the timers
  are left as they were.
\<close>

theorem rate_limit_handler_raises_NameError:
  "fst (handle_requests_exceptions now hass HTTP_TOO_MANY_REQUESTS) = Inl (NameError ''datetime'')
   \<and> timers (hass_data (snd (handle_requests_exceptions now hass HTTP_TOO_MANY_REQUESTS)))
       = timers (hass_data hass)"
  by (simp add: handle_requests_exceptions_def handle_requests_exceptions_in_def
      datetime_not_global Let_def)

text \<open>
  C2. The controller table is defined on each of the seven vendor controller modes, with
  the display values reset to auto, auto to auto, auto-eco to eco, away to auto, day-off
  to auto, custom to auto and heating-off to off; these seven modes are all its keys.
\<close>

theorem controller_mode_table_total:
  "dict_get TCS_STATE_TO_HA (JStr EVO_RESET) = Inr (Some STATE_AUTO)
   \<and> dict_get TCS_STATE_TO_HA (JStr EVO_AUTO) = Inr (Some STATE_AUTO)
   \<and> dict_get TCS_STATE_TO_HA (JStr EVO_AUTOECO) = Inr (Some STATE_ECO)
   \<and> dict_get TCS_STATE_TO_HA (JStr EVO_AWAY) = Inr (Some STATE_AUTO)
   \<and> dict_get TCS_STATE_TO_HA (JStr EVO_DAYOFF) = Inr (Some STATE_AUTO)
   \<and> dict_get TCS_STATE_TO_HA (JStr EVO_CUSTOM) = Inr (Some STATE_AUTO)
   \<and> dict_get TCS_STATE_TO_HA (JStr EVO_HEATOFF) = Inr (Some STATE_OFF)
   \<and> map fst TCS_STATE_TO_HA =
       [EVO_RESET, EVO_AUTO, EVO_AUTOECO, EVO_AWAY, EVO_DAYOFF, EVO_CUSTOM, EVO_HEATOFF]"
  by (simp add: evo_tables evo_names)

text \<open>
  C3. For a child whose own mode is follow-schedule, the operation displayed under
  controller mode reset is the one displayed under controller mode auto, namely auto.
\<close>

theorem reset_shown_as_auto:
  assumes "setpoint_mode_of self = Inr (JStr EVO_FOLLOW)"
    and "system_mode_of ed_reset = Inr (JStr EVO_RESET)"
    and "system_mode_of ed_auto = Inr (JStr EVO_AUTO)"
  shows "current_operation ed_reset self = current_operation ed_auto self
         \<and> current_operation ed_reset self = Inr (Some STATE_AUTO)"
  using assms by (simp add: follow_reset) (simp add: evo_tables evo_names)

theorem reset_shown_as_auto_witness:
  "setpoint_mode_of (example_dhw EVO_FOLLOW) = Inr (JStr EVO_FOLLOW)
   \<and> system_mode_of (example_evo_data EVO_RESET) = Inr (JStr EVO_RESET)
   \<and> system_mode_of (example_evo_data EVO_AUTO) = Inr (JStr EVO_AUTO)
   \<and> current_operation (example_evo_data EVO_RESET) (example_dhw EVO_FOLLOW)
       = current_operation (example_evo_data EVO_AUTO) (example_dhw EVO_FOLLOW)
   \<and> current_operation (example_evo_data EVO_RESET) (example_dhw EVO_FOLLOW)
       = Inr (Some STATE_AUTO)"
proof -
  have z: "setpoint_mode_of (example_dhw EVO_FOLLOW) = Inr (JStr EVO_FOLLOW)"
    by (rule example_setpoint_mode)
  have r: "system_mode_of (example_evo_data EVO_RESET) = Inr (JStr EVO_RESET)"
    and a: "system_mode_of (example_evo_data EVO_AUTO) = Inr (JStr EVO_AUTO)"
    by (rule example_system_mode)+
  from reset_shown_as_auto [OF z r a] z r a show ?thesis
    by blast
qed

text \<open>
  C4. For a child whose own mode is permanent-override or temporary-override, the
  operation displayed is manual, whatever the controller's mode is.
\<close>

theorem override_shown_as_manual:
  assumes "system_mode_of ed = Inr system_mode"
    and "setpoint_mode_of self = Inr (JStr zone_mode)"
    and "zone_mode = EVO_PERMOVER \<or> zone_mode = EVO_TEMPOVER"
  shows "current_operation ed self = Inr (Some STATE_MANUAL)"
proof -
  from assms(3) have "JStr zone_mode \<noteq> JStr EVO_FOLLOW"
    by (auto simp: evo_names)
  with assms(1,2) have "current_operation ed self = dict_get ZONE_STATE_TO_HA (JStr zone_mode)"
    by (rule override_zone)
  with assms(3) show ?thesis
    by (auto simp: evo_tables evo_names)
qed

theorem override_shown_as_manual_witness:
  "system_mode_of (example_evo_data EVO_HEATOFF) = Inr (JStr EVO_HEATOFF)
   \<and> setpoint_mode_of (example_dhw EVO_PERMOVER) = Inr (JStr EVO_PERMOVER)
   \<and> current_operation (example_evo_data EVO_HEATOFF) (example_dhw EVO_PERMOVER)
       = Inr (Some STATE_MANUAL)
   \<and> system_mode_of (example_evo_data EVO_AUTOECO) = Inr (JStr EVO_AUTOECO)
   \<and> setpoint_mode_of (example_dhw EVO_TEMPOVER) = Inr (JStr EVO_TEMPOVER)
   \<and> current_operation (example_evo_data EVO_AUTOECO) (example_dhw EVO_TEMPOVER)
       = Inr (Some STATE_MANUAL)"
  using override_shown_as_manual [of "example_evo_data EVO_HEATOFF" "JStr EVO_HEATOFF"
      "example_dhw EVO_PERMOVER" EVO_PERMOVER]
    override_shown_as_manual [of "example_evo_data EVO_AUTOECO" "JStr EVO_AUTOECO"
      "example_dhw EVO_TEMPOVER" EVO_TEMPOVER]
  by (simp add: example_setpoint_mode example_system_mode)

text \<open>
  C5. The spec has every accepted scan interval rounded up to the next whole minute. An
  interval of 180.5 seconds is accepted by the schema and \<open>setup\<close> turns it into 3
  minutes, which is shorter than the interval itself. (On whole seconds the computation
  does round up, and 200 seconds give 4 minutes: the two lemmas on
  \<open>setup_scan_interval\<close> above.)
\<close>

theorem scan_interval_fraction_rounded_down:
  "schema_accepts (example_params\<lparr>scan_interval := timedelta_milliseconds 180500\<rparr>)
   \<and> setup_scan_interval (timedelta_milliseconds 180500) = timedelta_minutes 3
   \<and> setup_scan_interval (timedelta_milliseconds 180500) < timedelta_milliseconds 180500"
proof -
  have "\<lfloor>(total_seconds (timedelta_milliseconds 180500) + 59) / 60\<rfloor> = 3"
    by (simp add: total_seconds_def timedelta_milliseconds_def floor_eq_iff)
  then have "setup_scan_interval (timedelta_milliseconds 180500) = timedelta_minutes 3"
    by (simp add: setup_scan_interval_def)
  then show ?thesis
    by (simp add: schema_accepts_def example_params_def timedelta_milliseconds_def
        timedelta_minutes_def SCAN_INTERVAL_MINIMUM_def timedelta_seconds_def)
qed

text \<open>
  C6. As amended. When creating the client fails with bad-request, service-unavailable or
  too-many-requests, \<open>setup\<close> logs one error, whose message differs between the three,
  and returns False; any other HTTP error is raised again. When the client is created,
  every location returned has at least one gateway, and the configured location index
  is not below the number of locations, \<open>setup\<close> returns False.
\<close>

theorem setup_failure_classes:
  "(EvohomeClient (username cfg) (password cfg) = Inl (HTTPError HTTP_BAD_REQUEST) \<longrightarrow>
      fst (evohome_setup EvohomeClient dbg hass cfg) = Inr False
      \<and> hass_log (snd (evohome_setup EvohomeClient dbg hass cfg)) =
          hass_log hass @ [Log ERROR msg_bad_request [ArgStr (username cfg)]])
   \<and> (EvohomeClient (username cfg) (password cfg) = Inl (HTTPError HTTP_SERVICE_UNAVAILABLE) \<longrightarrow>
      fst (evohome_setup EvohomeClient dbg hass cfg) = Inr False
      \<and> hass_log (snd (evohome_setup EvohomeClient dbg hass cfg)) =
          hass_log hass @ [Log ERROR msg_service_unavailable []])
   \<and> (EvohomeClient (username cfg) (password cfg) = Inl (HTTPError HTTP_TOO_MANY_REQUESTS) \<longrightarrow>
      fst (evohome_setup EvohomeClient dbg hass cfg) = Inr False
      \<and> hass_log (snd (evohome_setup EvohomeClient dbg hass cfg)) =
          hass_log hass @ [Log ERROR msg_too_many_requests []])
   \<and> distinct [msg_bad_request, msg_service_unavailable, msg_too_many_requests]
   \<and> (EvohomeClient (username cfg) (password cfg) = Inl (HTTPError code)
       \<and> code \<noteq> HTTP_BAD_REQUEST \<and> code \<noteq> HTTP_SERVICE_UNAVAILABLE
       \<and> code \<noteq> HTTP_TOO_MANY_REQUESTS \<longrightarrow>
      fst (evohome_setup EvohomeClient dbg hass cfg) = Inl (HTTPError code))
   \<and> (EvohomeClient (username cfg) (password cfg) = Inr c
       \<and> (\<forall>loc \<in> set (installation_info c). gateways loc \<noteq> [])
       \<and> length (installation_info c) \<le> location_idx cfg \<longrightarrow>
      fst (evohome_setup EvohomeClient dbg hass cfg) = Inr False)"
proof -
  have a: "EvohomeClient (username cfg) (password cfg) = Inl (HTTPError HTTP_BAD_REQUEST) \<Longrightarrow>
      fst (evohome_setup EvohomeClient dbg hass cfg) = Inr False
      \<and> hass_log (snd (evohome_setup EvohomeClient dbg hass cfg)) =
          hass_log hass @ [Log ERROR msg_bad_request [ArgStr (username cfg)]]"
    by (simp add: setup_http_error)
  have b: "EvohomeClient (username cfg) (password cfg) = Inl (HTTPError HTTP_SERVICE_UNAVAILABLE) \<Longrightarrow>
      fst (evohome_setup EvohomeClient dbg hass cfg) = Inr False
      \<and> hass_log (snd (evohome_setup EvohomeClient dbg hass cfg)) =
          hass_log hass @ [Log ERROR msg_service_unavailable []]"
    by (simp add: setup_http_error http_codes)
  have c: "EvohomeClient (username cfg) (password cfg) = Inl (HTTPError HTTP_TOO_MANY_REQUESTS) \<Longrightarrow>
      fst (evohome_setup EvohomeClient dbg hass cfg) = Inr False
      \<and> hass_log (snd (evohome_setup EvohomeClient dbg hass cfg)) =
          hass_log hass @ [Log ERROR msg_too_many_requests []]"
    by (simp add: setup_http_error http_codes)
  have d: "distinct [msg_bad_request, msg_service_unavailable, msg_too_many_requests]"
    by (simp add: setup_msgs)
  have e: "EvohomeClient (username cfg) (password cfg) = Inl (HTTPError code)
       \<and> code \<noteq> HTTP_BAD_REQUEST \<and> code \<noteq> HTTP_SERVICE_UNAVAILABLE
       \<and> code \<noteq> HTTP_TOO_MANY_REQUESTS \<Longrightarrow>
      fst (evohome_setup EvohomeClient dbg hass cfg) = Inl (HTTPError code)"
    by (simp add: setup_http_error)
  have f: "EvohomeClient (username cfg) (password cfg) = Inr c
       \<and> (\<forall>loc \<in> set (installation_info c). gateways loc \<noteq> [])
       \<and> length (installation_info c) \<le> location_idx cfg \<Longrightarrow>
      fst (evohome_setup EvohomeClient dbg hass cfg) = Inr False"
    using setup_index_out_of_range(1) [of EvohomeClient cfg c dbg hass] by blast
  from a b c d e f show ?thesis
    by blast
qed

theorem setup_failure_classes_witness:
  "fst (evohome_setup (example_failing_client HTTP_BAD_REQUEST) False example_hass example_params)
     = Inr False
   \<and> hass_log (snd (evohome_setup (example_failing_client HTTP_BAD_REQUEST) False example_hass
        example_params)) = [Log ERROR msg_bad_request [ArgStr ''user@example.com'']]
   \<and> fst (evohome_setup (example_failing_client HTTP_SERVICE_UNAVAILABLE) False example_hass
        example_params) = Inr False
   \<and> fst (evohome_setup (example_failing_client HTTP_TOO_MANY_REQUESTS) False example_hass
        example_params) = Inr False
   \<and> fst (evohome_setup (example_failing_client 500) False example_hass example_params)
     = Inl (HTTPError 500)
   \<and> gateways (example_location [example_gateway]) = [example_gateway]
   \<and> length [example_location [example_gateway]] \<le> location_idx (example_params\<lparr>location_idx := 1\<rparr>)
   \<and> fst (evohome_setup (example_client [example_location [example_gateway]]) False example_hass
        (example_params\<lparr>location_idx := 1\<rparr>)) = Inr False"
proof -
  have g: "\<forall>loc \<in> set [example_location [example_gateway]]. gateways loc \<noteq> []"
    by (simp add: example_location_def)
  have l: "length [example_location [example_gateway]]
             \<le> location_idx (example_params\<lparr>location_idx := 1\<rparr>)"
    by simp
  note t = setup_failure_classes [where dbg = False and hass = example_hass]
  from t [of "example_failing_client HTTP_BAD_REQUEST" example_params]
       t [of "example_failing_client HTTP_SERVICE_UNAVAILABLE" example_params]
       t [of "example_failing_client HTTP_TOO_MANY_REQUESTS" example_params]
       t [of "example_failing_client 500" example_params 500]
       t [of "example_client [example_location [example_gateway]]"
             "example_params\<lparr>location_idx := 1\<rparr>" _
             "\<lparr>installation_info = [example_location [example_gateway]]\<rparr>"]
       g l
  show ?thesis
    by (simp add: example_failing_client_def example_client_def example_hass_def
        example_params_def example_location_def http_codes)
qed

text \<open>
  Without the condition on the gateways the last part fails: the redaction loop reads
  \<open>loc[GWS][0]\<close> outside any \<open>try\<close>, so a location without a gateway makes \<open>setup\<close>
  raise IndexError although the location index is out of range.
\<close>

theorem setup_location_without_gateway_raises:
  "length [example_location [example_gateway], example_location []]
     < location_idx (example_params\<lparr>location_idx := 5\<rparr>)
   \<and> fst (evohome_setup (example_client [example_location [example_gateway], example_location []])
        False example_hass (example_params\<lparr>location_idx := 5\<rparr>)) = Inl IndexError"
  by (simp add: evohome_setup_def setup_installation_def Let_def redact_params_def
      redact_location_def examples)

text \<open>
  C7. \<open>should_poll\<close> holds exactly for a device whose type is the parent mask, so not for
  the hot-water child. \<open>_connect\<close> schedules a refresh exactly when the packet's target
  has the bit of the device's class and the signal is \<open>refresh\<close>; a packet addressed to
  the parent mask alone does not refresh a child, nor one addressed to the child mask a
  parent.
\<close>

theorem poll_and_refresh_by_class:
  "(should_poll self \<longleftrightarrow> dev_type self = EVO_PARENT)
   \<and> (EvoDHW_init ed = Inr self \<longrightarrow> \<not> should_poll self)
   \<and> (EvoDevice_connect self pkt = [Schedule_update_ha_state True]
        \<or> EvoDevice_connect self pkt = [])
   \<and> (dev_type self = EVO_PARENT \<longrightarrow>
         (EvoDevice_connect self pkt \<noteq> [] \<longleftrightarrow> bit (pkt_to pkt) 0 \<and> pkt_signal pkt = ''refresh''))
   \<and> (dev_type self = EVO_CHILD \<longrightarrow>
         (EvoDevice_connect self pkt \<noteq> [] \<longleftrightarrow> bit (pkt_to pkt) 1 \<and> pkt_signal pkt = ''refresh''))
   \<and> (dev_type self = EVO_CHILD \<and> pkt_to pkt = EVO_PARENT \<longrightarrow> EvoDevice_connect self pkt = [])
   \<and> (dev_type self = EVO_PARENT \<and> pkt_to pkt = EVO_CHILD \<longrightarrow> EvoDevice_connect self pkt = [])"
proof -
  have p: "dev_type self = EVO_PARENT \<Longrightarrow>
      (EvoDevice_connect self pkt \<noteq> [] \<longleftrightarrow> bit (pkt_to pkt) 0 \<and> pkt_signal pkt = ''refresh'')"
    using and_parent_bit [of "pkt_to pkt"] by (simp add: EvoDevice_connect_def)
  have c: "dev_type self = EVO_CHILD \<Longrightarrow>
      (EvoDevice_connect self pkt \<noteq> [] \<longleftrightarrow> bit (pkt_to pkt) 1 \<and> pkt_signal pkt = ''refresh'')"
    using and_child_bit [of "pkt_to pkt"] by (simp add: EvoDevice_connect_def)
  have d: "EvoDHW_init ed = Inr self \<Longrightarrow> \<not> should_poll self"
    by (auto simp: should_poll_def EVO_PARENT_def EVO_CHILD_def dest!: EvoDHW_init_type)
  have x1: "dev_type self = EVO_CHILD \<and> pkt_to pkt = EVO_PARENT \<Longrightarrow> EvoDevice_connect self pkt = []"
    by (simp add: EvoDevice_connect_def EVO_PARENT_def EVO_CHILD_def)
  have x2: "dev_type self = EVO_PARENT \<and> pkt_to pkt = EVO_CHILD \<Longrightarrow> EvoDevice_connect self pkt = []"
    by (simp add: EvoDevice_connect_def EVO_PARENT_def EVO_CHILD_def)
  show ?thesis
    using p c d x1 x2 by (simp add: should_poll_def) (simp add: EvoDevice_connect_def)
qed

theorem poll_and_refresh_by_class_witness:
  "EvoDHW_init example_configured
     = Inr ((example_dhw '''')\<lparr>dev_status := JObj [], dev_available := False\<rparr>)
   \<and> \<not> should_poll ((example_dhw '''')\<lparr>dev_status := JObj [], dev_available := False\<rparr>)
   \<and> dev_type (example_dhw EVO_FOLLOW) = EVO_CHILD \<and> pkt_to first_update = EVO_PARENT
   \<and> EvoDevice_connect (example_dhw EVO_FOLLOW) first_update = []
   \<and> dev_type ((example_dhw EVO_FOLLOW)\<lparr>dev_type := EVO_PARENT\<rparr>) = EVO_PARENT
   \<and> pkt_to (first_update\<lparr>pkt_to := EVO_CHILD\<rparr>) = EVO_CHILD
   \<and> EvoDevice_connect ((example_dhw EVO_FOLLOW)\<lparr>dev_type := EVO_PARENT\<rparr>)
       (first_update\<lparr>pkt_to := EVO_CHILD\<rparr>) = []
   \<and> bit (pkt_to first_update) 0 \<and> pkt_signal first_update = ''refresh''
   \<and> EvoDevice_connect ((example_dhw EVO_FOLLOW)\<lparr>dev_type := EVO_PARENT\<rparr>) first_update \<noteq> []
   \<and> bit (pkt_to (first_update\<lparr>pkt_to := 3\<rparr>)) 1
   \<and> EvoDevice_connect (example_dhw EVO_FOLLOW) (first_update\<lparr>pkt_to := 3\<rparr>) \<noteq> []"
proof -
  have b: "bit (3::int) (Suc 0)"
    by (simp add: bit_Suc)
  from poll_and_refresh_by_class [of "(example_dhw '''')\<lparr>dev_status := JObj [], dev_available := False\<rparr>"
      example_configured first_update]
    poll_and_refresh_by_class [of "example_dhw EVO_FOLLOW" example_configured first_update]
    poll_and_refresh_by_class [of "(example_dhw EVO_FOLLOW)\<lparr>dev_type := EVO_PARENT\<rparr>"
      example_configured "first_update\<lparr>pkt_to := EVO_CHILD\<rparr>"]
    poll_and_refresh_by_class [of "(example_dhw EVO_FOLLOW)\<lparr>dev_type := EVO_PARENT\<rparr>"
      example_configured first_update]
    poll_and_refresh_by_class [of "example_dhw EVO_FOLLOW" example_configured
      "first_update\<lparr>pkt_to := 3\<rparr>"]
    example_init b
  show ?thesis
    by (simp add: example_dhw_def first_update_def EVO_PARENT_def EVO_CHILD_def)
qed

text \<open>
  C8. As amended. For a zone mode that is a string absent from the zone table, and for
  follow-schedule under a controller mode that is a string absent from the controller
  table, \<open>current_operation\<close> raises nothing and returns Python's \<open>None\<close>.
\<close>

theorem unmapped_mode_returns_None:
  assumes "system_mode_of ed = Inr (JStr system_mode)"
    and "setpoint_mode_of self = Inr (JStr zone_mode)"
    and "zone_mode \<notin> set (map fst ZONE_STATE_TO_HA)
         \<or> (zone_mode = EVO_FOLLOW \<and> system_mode \<notin> set (map fst TCS_STATE_TO_HA))"
  shows "current_operation ed self = Inr None"
  using assms(3)
proof
  assume z: "zone_mode \<notin> set (map fst ZONE_STATE_TO_HA)"
  then have "JStr zone_mode \<noteq> JStr EVO_FOLLOW"
    by (auto simp: evo_tables)
  with assms(1,2) have "current_operation ed self = dict_get ZONE_STATE_TO_HA (JStr zone_mode)"
    by (rule override_zone)
  with z show ?thesis
    by (simp add: map_of_eq_None_iff)
next
  assume s: "zone_mode = EVO_FOLLOW \<and> system_mode \<notin> set (map fst TCS_STATE_TO_HA)"
  then have "JStr system_mode \<noteq> JStr EVO_RESET"
    by (auto simp: evo_tables)
  with s assms(1,2) have "current_operation ed self = dict_get TCS_STATE_TO_HA (JStr system_mode)"
    by (simp add: follow_reset)
  with s show ?thesis
    by (simp add: map_of_eq_None_iff)
qed

theorem unmapped_mode_returns_None_witness:
  "system_mode_of (example_evo_data EVO_AWAY) = Inr (JStr EVO_AWAY)
   \<and> setpoint_mode_of (example_dhw ''Boost'') = Inr (JStr ''Boost'')
   \<and> ''Boost'' \<notin> set (map fst ZONE_STATE_TO_HA)
   \<and> current_operation (example_evo_data EVO_AWAY) (example_dhw ''Boost'') = Inr None
   \<and> system_mode_of (example_evo_data ''Boost'') = Inr (JStr ''Boost'')
   \<and> setpoint_mode_of (example_dhw EVO_FOLLOW) = Inr (JStr EVO_FOLLOW)
   \<and> ''Boost'' \<notin> set (map fst TCS_STATE_TO_HA)
   \<and> current_operation (example_evo_data ''Boost'') (example_dhw EVO_FOLLOW) = Inr None"
proof -
  have z: "''Boost'' \<notin> set (map fst ZONE_STATE_TO_HA)"
    and t: "''Boost'' \<notin> set (map fst TCS_STATE_TO_HA)"
    by (simp_all add: evo_tables evo_names)
  from unmapped_mode_returns_None [of "example_evo_data EVO_AWAY" EVO_AWAY
      "example_dhw ''Boost''" "''Boost''"]
    unmapped_mode_returns_None [of "example_evo_data ''Boost''" "''Boost''"
      "example_dhw EVO_FOLLOW" EVO_FOLLOW]
    z t
  show ?thesis
    by (simp add: example_setpoint_mode example_system_mode)
qed

text \<open>
  The claim as stated, that an unmapped mode signals an error, fails on the mode
  \<open>Holiday\<close>, as zone mode and as controller mode.
\<close>

theorem unmapped_mode_not_an_error:
  "''Holiday'' \<notin> set (map fst TCS_STATE_TO_HA)
   \<and> ''Holiday'' \<notin> set (map fst ZONE_STATE_TO_HA)
   \<and> current_operation (example_evo_data EVO_AUTO) (example_dhw ''Holiday'') = Inr None
   \<and> current_operation (example_evo_data ''Holiday'') (example_dhw EVO_FOLLOW) = Inr None"
  by (simp add: current_operation_def example_setpoint_mode example_system_mode bind_e_def
      evo_tables evo_names)

text \<open>
  C9. As amended. Whenever \<open>setup\<close> returns, True or False, the stored username and
  password are \<open>REDACTED\<close>, and every location of a retained client, and the retained
  configuration, has its location id, owner, street address and city, and the gateway
  info of its first gateway, replaced by \<open>REDACTED\<close>.
\<close>

theorem setup_redacts_retained_state:
  assumes "evohome_setup EvohomeClient dbg hass cfg = (Inr b, hass1)"
  shows "username (params (hass_data hass1)) = REDACTED
         \<and> password (params (hass_data hass1)) = REDACTED
         \<and> (\<forall>c. client (hass_data hass1) = Some c \<longrightarrow>
               (\<forall>loc \<in> set (installation_info c). redacted_up_to_first_gateway loc))
         \<and> (\<forall>loc. evo_config (hass_data hass1) = Some loc \<longrightarrow> redacted_up_to_first_gateway loc)"
proof -
  let ?ed = "\<lparr>timers = Map.empty, params = cfg, client = None, status = None, config = None\<rparr>"
  let ?h = "hass\<lparr>hass_data := redact_params ?ed\<rparr>"
  have main: "username (params (hass_data hass1)) = REDACTED
         \<and> password (params (hass_data hass1)) = REDACTED
         \<and> (\<forall>c. client (hass_data hass1) = Some c \<longrightarrow>
               (\<forall>loc \<in> set (installation_info c). redacted_up_to_first_gateway loc))"
  proof (cases "EvohomeClient (username cfg) (password cfg)")
    case (Inl err)
    with assms show ?thesis
      by (cases err) (auto simp: evohome_setup_def Let_def redact_params_def split: if_splits)
  next
    case (Inr c)
    with assms have run: "setup_installation dbg ?h c = (Inr b, hass1)"
      by (simp add: evohome_setup_def Let_def)
    from setup_installation_params [of dbg ?h c] run
    have "params (hass_data hass1) = params (hass_data ?h)"
      by simp
    then have "username (params (hass_data hass1)) = REDACTED"
      and "password (params (hass_data hass1)) = REDACTED"
      by (simp_all add: redact_params_def)
    with setup_installation_returns [OF run] show ?thesis
      by auto
  qed
  moreover have "redacted_up_to_first_gateway loc" if "evo_config (hass_data hass1) = Some loc" for loc
    using main evo_config_retained [OF that] by auto
  ultimately show ?thesis
    by blast
qed

theorem setup_redacts_retained_state_witness:
  "fst (evohome_setup (example_client [example_location [example_gateway]]) False example_hass
     example_params) = Inr True
   \<and> username (params (hass_data (snd (evohome_setup
        (example_client [example_location [example_gateway]]) False example_hass example_params))))
       = REDACTED
   \<and> password (params (hass_data (snd (evohome_setup
        (example_client [example_location [example_gateway]]) False example_hass example_params))))
       = REDACTED
   \<and> (\<exists>c. client (hass_data (snd (evohome_setup
        (example_client [example_location [example_gateway]]) False example_hass example_params)))
          = Some c \<and> map redacted_up_to_first_gateway (installation_info c) = [True])
   \<and> (\<exists>loc. evo_config (hass_data (snd (evohome_setup
        (example_client [example_location [example_gateway]]) False example_hass example_params)))
          = Some loc \<and> redacted_up_to_first_gateway loc)
   \<and> fst (evohome_setup (example_failing_client HTTP_BAD_REQUEST) False example_hass
        example_params) = Inr False
   \<and> password (params (hass_data (snd (evohome_setup (example_failing_client HTTP_BAD_REQUEST)
        False example_hass example_params)))) = REDACTED"
proof -
  let ?ok = "evohome_setup (example_client [example_location [example_gateway]]) False
    example_hass example_params"
  let ?ko = "evohome_setup (example_failing_client HTTP_BAD_REQUEST) False example_hass
    example_params"
  have ok: "?ok = (Inr True, snd ?ok)"
    using example_run_ok by (simp add: prod_eq_iff)
  have ko: "?ko = (Inr False, snd ?ko)"
    using example_run_failed by (simp add: prod_eq_iff)
  note red = setup_redacts_retained_state [OF ok]
  from example_run_client obtain c where c: "client (hass_data (snd ?ok)) = Some c"
    and len: "length (installation_info c) = 1"
    by auto
  from len obtain loc where "installation_info c = [loc]"
    by (cases "installation_info c") auto
  with red c have "map redacted_up_to_first_gateway (installation_info c) = [True]"
    by auto
  with c red setup_redacts_retained_state [OF ko]
    example_run_ok example_run_failed example_run_config
  show ?thesis
    by auto
qed

text \<open>
  The claim as stated, that every gateway info of a retained location is replaced, fails
  on a location with two gateways: \<open>setup\<close> returns True, the first gateway info is
  \<open>REDACTED\<close> and the second is retained as the vendor sent it.
\<close>

theorem setup_keeps_second_gateway_info:
  "fst (evohome_setup
          (example_client [example_location [example_gateway, example_second_gateway]])
          False example_hass example_params) = Inr True
   \<and> map_option (map (map gatewayInfo \<circ> gateways) \<circ> installation_info)
         (client (hass_data (snd (evohome_setup
            (example_client [example_location [example_gateway, example_second_gateway]])
            False example_hass example_params))))
       = Some [[JStr REDACTED, JObj [(''gatewayId'', JStr ''7654321'')]]]
   \<and> map_option (map redacted_location \<circ> installation_info)
         (client (hass_data (snd (evohome_setup
            (example_client [example_location [example_gateway, example_second_gateway]])
            False example_hass example_params))))
       = Some [False]"
  by (simp add: evohome_setup_def setup_installation_def Let_def redact_params_def
      redact_location_def redacted_location_def REDACTED_def examples)

text \<open>
  C10. Every display value the controller can be commanded with (auto, eco, off) is mapped
  to a controller mode that the controller table maps back to it, and every display
  value a zone can be commanded with (auto, manual) to a zone mode that the zone table
  maps back to it.
\<close>

theorem display_tables_right_inverse:
  "(\<forall>s \<in> set TCS_OP_LIST. \<exists>m. dict_get HA_STATE_TO_TCS (JStr s) = Inr (Some m)
        \<and> dict_get TCS_STATE_TO_HA (JStr m) = Inr (Some s))
   \<and> (\<forall>s \<in> set ZONE_OP_LIST. \<exists>m. dict_get HA_STATE_TO_ZONE (JStr s) = Inr (Some m)
        \<and> dict_get ZONE_STATE_TO_HA (JStr m) = Inr (Some s))
   \<and> TCS_OP_LIST = [STATE_AUTO, STATE_ECO, STATE_OFF]
   \<and> ZONE_OP_LIST = [STATE_AUTO, STATE_MANUAL]"
  by (simp add: evo_tables evo_names)

theorem display_tables_right_inverse_witness:
  "STATE_ECO \<in> set TCS_OP_LIST
   \<and> (\<exists>m. dict_get HA_STATE_TO_TCS (JStr STATE_ECO) = Inr (Some m)
        \<and> dict_get TCS_STATE_TO_HA (JStr m) = Inr (Some STATE_ECO))
   \<and> STATE_MANUAL \<in> set ZONE_OP_LIST
   \<and> (\<exists>m. dict_get HA_STATE_TO_ZONE (JStr STATE_MANUAL) = Inr (Some m)
        \<and> dict_get ZONE_STATE_TO_HA (JStr m) = Inr (Some STATE_MANUAL))"
proof -
  have e: "STATE_ECO \<in> set TCS_OP_LIST" and m: "STATE_MANUAL \<in> set ZONE_OP_LIST"
    by (simp_all add: evo_tables)
  from display_tables_right_inverse e m show ?thesis
    by blast
qed

end
